theory Spec2Isabelle
  imports Complex_Main "HOL-Library.Multiset"
begin

section \<open>Values shared by the handlers\<close>

text \<open>
  Python's \<open>float\<close> is modelled by \<open>real\<close> (rounding is not modelled), Python's \<open>int\<close>
  by \<open>int\<close>, \<open>str\<close> by \<open>string\<close>, and a UUID by its text form.  A \<open>datetime\<close> is the
  proleptic Gregorian ordinal of its date (\<open>date.toordinal()\<close>) with the second of the day.
  \<open>datetime.now()\<close> is an argument of the function that calls it.
\<close>

type_synonym uuid = string

record datetime =
  ordinal :: int
  second_of_day :: nat

datatype py_error = TypeError | ZeroDivisionError

text \<open>\<open>HTTPException(status_code, detail)\<close>.\<close>

datatype http_error = HTTPException int string

section \<open>Rows of the tables\<close>

text \<open>
  A table is the list of its rows in insertion order.  A query is read with its relational
  meaning: \<open>SELECT ... WHERE\<close> keeps the rows that satisfy the condition, \<open>.one()\<close> is the
  first of them or \<open>None\<close>, \<open>INSERT\<close> adds a row, \<open>UPDATE ... WHERE\<close> rewrites every row
  that satisfies the condition, \<open>DELETE ... WHERE\<close> drops them.  A column that an
  \<open>INSERT\<close> does not name is null (\<open>None\<close>) in the new row.
\<close>

record interview_question =
  q_id :: uuid
  q_category :: string
  q_difficulty :: string
  q_title :: string
  q_description :: string
  q_sample_answer :: string
  q_keywords :: "string list"
  q_created_at :: datetime
  q_tags :: "string list"
  q_company_tags :: "string list"
  q_likes :: int
  q_views :: int

record user_answer =
  a_id :: uuid
  a_user_id :: uuid
  a_question_id :: uuid
  a_answer_text :: string
  a_voice_recording_url :: "string option"
  a_feedback :: "string option"
  a_confidence_score :: "real option"
  a_created_at :: datetime
  a_updated_at :: "datetime option"

record question_progress =
  p_user_id :: uuid
  p_question_id :: uuid
  p_status :: string
  p_attempts :: int
  p_last_attempt_date :: "datetime option"
  p_mastery_level :: "real option"
  p_notes :: "string option"

record user_row =
  u_id :: uuid
  u_email :: string
  u_username :: string
  u_full_name :: string
  u_hashed_password :: string
  u_created_at :: datetime
  u_is_active :: bool
  u_skills :: "string list"
  u_progress :: "(string \<times> string) list"
  u_preferences :: "(string \<times> string) list"

record media_file =
  f_id :: uuid
  f_user_id :: uuid
  f_filename :: string
  f_original_filename :: string
  f_category :: "string option"
  f_tags :: "string list option"
  f_upload_date :: datetime
  f_file_type :: "string option"
  f_file_size :: "int option"

record database =
  users :: "user_row list"
  interview_questions :: "interview_question list"
  user_answers :: "user_answer list"
  question_progress_rows :: "question_progress list"
  media_files :: "media_file list"

text \<open>\<open>ResultSet.one()\<close>: the first row, or \<open>None\<close>.\<close>

definition one_row :: "'a list \<Rightarrow> 'a option" where
  "one_row rows = (case rows of [] \<Rightarrow> None | r # _ \<Rightarrow> Some r)"

text \<open>\<open>SELECT * FROM question_progress WHERE user_id = %s AND question_id = %s\<close>\<close>

definition progress_key :: "uuid \<Rightarrow> uuid \<Rightarrow> question_progress \<Rightarrow> bool" where
  "progress_key user_id question_id p \<longleftrightarrow>
     p_user_id p = user_id \<and> p_question_id p = question_id"

definition select_progress :: "database \<Rightarrow> uuid \<Rightarrow> uuid \<Rightarrow> question_progress list" where
  "select_progress db user_id question_id =
     filter (progress_key user_id question_id) (question_progress_rows db)"

section \<open>ProgressService.update_mastery_level\<close>

text \<open>
  The row is read, the new mastery is computed in Python from the row that was read
  (\<open>None * int\<close> raises \<open>TypeError\<close>, a division by \<open>0\<close> raises
  \<open>ZeroDivisionError\<close>), and the \<open>UPDATE\<close> writes it and increments \<open>attempts\<close> in
  the store.  Without a row, one is inserted.
\<close>

definition update_mastery_level ::
  "database \<Rightarrow> uuid \<Rightarrow> uuid \<Rightarrow> real \<Rightarrow> datetime \<Rightarrow> database \<times> (py_error + unit)" where
  "update_mastery_level db user_id question_id confidence_score now =
     (case one_row (select_progress db user_id question_id) of
        Some current_progress \<Rightarrow>
          (case p_mastery_level current_progress of
             None \<Rightarrow> (db, Inl TypeError)
           | Some mastery \<Rightarrow>
               if p_attempts current_progress + 1 = 0 then (db, Inl ZeroDivisionError)
               else
                 let new_mastery =
                       (mastery * of_int (p_attempts current_progress) + confidence_score)
                         / of_int (p_attempts current_progress + 1)
                 in (db\<lparr>question_progress_rows :=
                          map (\<lambda>p. if progress_key user_id question_id p
                                    then p\<lparr>p_mastery_level := Some new_mastery,
                                           p_attempts := p_attempts p + 1,
                                           p_last_attempt_date := Some now\<rparr>
                                    else p)
                              (question_progress_rows db)\<rparr>,
                     Inr ()))
      | None \<Rightarrow>
          (db\<lparr>question_progress_rows :=
                 question_progress_rows db @
                   [\<lparr>p_user_id = user_id, p_question_id = question_id,
                     p_status = ''in_progress'', p_attempts = 1,
                     p_last_attempt_date = Some now,
                     p_mastery_level = Some confidence_score,
                     p_notes = None\<rparr>]\<rparr>,
           Inr ()))"

section \<open>submit_answer\<close>

definition submit_answer ::
  "database \<Rightarrow> uuid \<Rightarrow> user_answer \<Rightarrow> database \<times> (http_error + user_answer)" where
  "submit_answer db current_user_id answer =
     (case one_row (filter (\<lambda>q. q_id q = a_question_id answer) (interview_questions db)) of
        None \<Rightarrow> (db, Inl (HTTPException 404 ''Question not found''))
      | Some question \<Rightarrow>
          let db1 = db\<lparr>user_answers :=
                        user_answers db @
                          [\<lparr>a_id = a_id answer, a_user_id = current_user_id,
                            a_question_id = a_question_id answer,
                            a_answer_text = a_answer_text answer,
                            a_voice_recording_url = a_voice_recording_url answer,
                            a_feedback = a_feedback answer,
                            a_confidence_score = a_confidence_score answer,
                            a_created_at = a_created_at answer,
                            a_updated_at = None\<rparr>]\<rparr>
          in (case one_row (select_progress db1 current_user_id (a_question_id answer)) of
                Some progress \<Rightarrow>
                  (db1\<lparr>question_progress_rows :=
                          map (\<lambda>p. if progress_key current_user_id (a_question_id answer) p
                                    then p\<lparr>p_attempts := p_attempts p + 1,
                                           p_last_attempt_date := Some (a_created_at answer)\<rparr>
                                    else p)
                              (question_progress_rows db1)\<rparr>,
                   Inr answer)
              | None \<Rightarrow>
                  (db1\<lparr>question_progress_rows :=
                          question_progress_rows db1 @
                            [\<lparr>p_user_id = current_user_id,
                              p_question_id = a_question_id answer,
                              p_status = ''in_progress'', p_attempts = 1,
                              p_last_attempt_date = Some (a_created_at answer),
                              p_mastery_level = None,
                              p_notes = None\<rparr>]\<rparr>,
                   Inr answer)))"


section \<open>register_user\<close>

text \<open>
  \<open>UserCreate\<close> is the request body, \<open>User\<close> the response.  \<open>get_password_hash\<close> is
  an external helper and an argument here; so are the defaults \<open>uuid4()\<close> and
  \<open>datetime.now()\<close> of \<open>UserInDB\<close>, which Python evaluates when the class is defined.
\<close>

record user_create =
  c_email :: string
  c_username :: string
  c_full_name :: string
  c_password :: string

record user =
  r_email :: string
  r_username :: string
  r_full_name :: string
  r_id :: uuid
  r_is_active :: bool
  r_created_at :: datetime
  r_skills :: "string list"
  r_progress :: "(string \<times> string) list"
  r_preferences :: "(string \<times> string) list"

definition register_user ::
  "(string \<Rightarrow> string) \<Rightarrow> uuid \<Rightarrow> datetime \<Rightarrow> database \<Rightarrow> user_create
     \<Rightarrow> database \<times> (http_error + user)" where
  "register_user get_password_hash default_id default_created_at db u =
     (case one_row (filter (\<lambda>r. u_email r = c_email u) (users db)) of
        Some existing \<Rightarrow> (db, Inl (HTTPException 400 ''Email already registered''))
      | None \<Rightarrow>
          let user_in_db =
                \<lparr>u_id = default_id, u_email = c_email u, u_username = c_username u,
                 u_full_name = c_full_name u,
                 u_hashed_password = get_password_hash (c_password u),
                 u_created_at = default_created_at, u_is_active = True, u_skills = [],
                 u_progress = [], u_preferences = []\<rparr>
          in (db\<lparr>users := users db @ [user_in_db]\<rparr>,
              Inr \<lparr>r_email = u_email user_in_db, r_username = u_username user_in_db,
                   r_full_name = u_full_name user_in_db, r_id = u_id user_in_db,
                   r_is_active = u_is_active user_in_db,
                   r_created_at = u_created_at user_in_db, r_skills = u_skills user_in_db,
                   r_progress = u_progress user_in_db,
                   r_preferences = u_preferences user_in_db\<rparr>))"

section \<open>get_questions\<close>

text \<open>
  Each of the four \<open>if\<close> statements appends a condition when its argument is truthy
  (neither \<open>None\<close> nor the empty string); the conditions are joined by \<open>AND\<close>, and
  \<open>LIMIT\<close> with the number is appended.  \<open>Query(le=50)\<close> rejects a larger \<open>limit\<close>
  before the handler runs.  What the store does with the \<open>LIMIT\<close> clause is an
  argument, \<open>limit_clause\<close>: for the number after \<open>LIMIT\<close> and the rows that satisfy the
  conditions, \<open>session.execute\<close> raises (\<open>Inl\<close> the message) or yields the rows of
  the result.

  The session is the one that \<open>db/connection.py\<close> opens; it sets no row factory, so a
  row is a named tuple, which every other handler reads by attribute.
  \<open>InterviewQuestion(**row)\<close> needs a mapping and raises \<open>TypeError\<close> on such a row:
  the list comprehension raises at the first row of a result that has one, and yields the
  empty list for a result that has none.
\<close>

datatype handler_error = RequestValidationError | StoreError string | Unhandled py_error

datatype condition = CategoryEq string | DifficultyEq string | TagAny string | CompanyAny string

fun holds :: "condition \<Rightarrow> interview_question \<Rightarrow> bool" where
  "holds (CategoryEq c) q = (q_category q = c)"
| "holds (DifficultyEq d) q = (q_difficulty q = d)"
| "holds (TagAny t) q = (t \<in> set (q_tags q))"
| "holds (CompanyAny c) q = (c \<in> set (q_company_tags q))"

definition when_truthy :: "string option \<Rightarrow> (string \<Rightarrow> condition) \<Rightarrow> condition list" where
  "when_truthy arg mk = (case arg of None \<Rightarrow> [] | Some v \<Rightarrow> if v = [] then [] else [mk v])"

definition conditions ::
  "string option \<Rightarrow> string option \<Rightarrow> string option \<Rightarrow> string option \<Rightarrow> condition list" where
  "conditions category difficulty tag company =
     when_truthy category CategoryEq @ when_truthy difficulty DifficultyEq @
     when_truthy tag TagAny @ when_truthy company CompanyAny"

text \<open>\<open>session.execute(query, params)\<close> for the query that the handler builds.\<close>

definition select_questions ::
  "(int \<Rightarrow> interview_question list \<Rightarrow> string + interview_question list) \<Rightarrow> database
     \<Rightarrow> string option \<Rightarrow> string option \<Rightarrow> string option \<Rightarrow> string option \<Rightarrow> int
     \<Rightarrow> string + interview_question list" where
  "select_questions limit_clause db category difficulty tag company limit =
     limit_clause limit
       (filter (\<lambda>q. list_all (\<lambda>c. holds c q) (conditions category difficulty tag company))
          (interview_questions db))"

text \<open>\<open>[InterviewQuestion(**row) for row in result]\<close>\<close>

fun build_questions :: "interview_question list \<Rightarrow> handler_error + interview_question list" where
  "build_questions [] = Inr []"
| "build_questions (row # rest) = Inl (Unhandled TypeError)"

definition get_questions ::
  "(int \<Rightarrow> interview_question list \<Rightarrow> string + interview_question list) \<Rightarrow> database
     \<Rightarrow> string option \<Rightarrow> string option \<Rightarrow> string option \<Rightarrow> string option \<Rightarrow> int
     \<Rightarrow> handler_error + interview_question list" where
  "get_questions limit_clause db category difficulty tag company limit =
     (if limit > 50 then Inl RequestValidationError
      else
        case select_questions limit_clause db category difficulty tag company limit of
          Inl e \<Rightarrow> Inl (StoreError e)
        | Inr result \<Rightarrow> build_questions result)"

section \<open>Strings: \<open>str.lower\<close>, \<open>in\<close>, \<open>str.join\<close>\<close>

text \<open>\<open>str.lower()\<close> on ASCII letters; every other character is kept.\<close>

definition lower_char :: "char \<Rightarrow> char" where
  "lower_char c =
     (let n = (of_char c :: nat) in if 65 \<le> n \<and> n \<le> 90 then char_of (n + 32) else c)"

definition lower :: "string \<Rightarrow> string" where
  "lower s = map lower_char s"

fun starts_with :: "string \<Rightarrow> string \<Rightarrow> bool" where
  "starts_with [] ys = True"
| "starts_with (x # xs) [] = False"
| "starts_with (x # xs) (y # ys) = (x = y \<and> starts_with xs ys)"

text \<open>\<open>needle in haystack\<close> on strings: \<open>needle\<close> occurs as a contiguous run.\<close>

fun str_in :: "string \<Rightarrow> string \<Rightarrow> bool" where
  "str_in needle [] = (needle = [])"
| "str_in needle (y # ys) = (starts_with needle (y # ys) \<or> str_in needle ys)"

fun join :: "string \<Rightarrow> string list \<Rightarrow> string" where
  "join sep [] = []"
| "join sep [x] = x"
| "join sep (x # y # ys) = x @ sep @ join sep (y # ys)"

section \<open>VoiceService.analyze_interview_response\<close>

record analysis =
  score :: real
  feedback :: string
  keywords_mentioned :: "string list"
  missing_keywords :: "string list"

text \<open>Python's \<open>/\<close>: a zero divisor raises.\<close>

definition truediv :: "real \<Rightarrow> real \<Rightarrow> py_error + real" where
  "truediv a b = (if b = 0 then Inl ZeroDivisionError else Inr (a / b))"

definition generate_feedback :: "real \<Rightarrow> string list \<Rightarrow> string list \<Rightarrow> string" where
  "generate_feedback sc mentioned missing =
     join '' ''
       ([if sc \<ge> 8 / 10 then ''Excellent response! You covered most of the key points.''
         else if sc \<ge> 6 / 10 then ''Good response, but there's room for improvement.''
         else ''You might want to review this topic and try again.''] @
        (if mentioned \<noteq> [] then [''You effectively mentioned: '' @ join '', '' mentioned]
         else []) @
        (if missing \<noteq> []
         then [''Consider including these points in your answer: '' @ join '', '' missing]
         else []))"

text \<open>The loop over \<open>question.keywords\<close>, with the two lists it appends to.\<close>

fun check_keywords ::
  "string \<Rightarrow> string list \<Rightarrow> string list \<times> string list \<Rightarrow> string list \<times> string list" where
  "check_keywords transcript [] (mentioned, missing) = (mentioned, missing)"
| "check_keywords transcript (keyword # rest) (mentioned, missing) =
     (if str_in (lower keyword) (lower transcript)
      then check_keywords transcript rest (mentioned @ [keyword], missing)
      else check_keywords transcript rest (mentioned, missing @ [keyword]))"

definition analyze_interview_response ::
  "database \<Rightarrow> string \<Rightarrow> uuid \<Rightarrow> py_error + analysis" where
  "analyze_interview_response db transcript question_id =
     (case one_row (filter (\<lambda>q. q_id q = question_id) (interview_questions db)) of
        None \<Rightarrow>
          Inr \<lparr>score = 0, feedback = ''Question not found'', keywords_mentioned = [],
               missing_keywords = []\<rparr>
      | Some question \<Rightarrow>
          (case check_keywords transcript (q_keywords question) ([], []) of
             (mentioned, missing) \<Rightarrow>
               (case (if q_keywords question \<noteq> []
                      then truediv (of_nat (length mentioned))
                             (of_nat (length (q_keywords question)))
                      else Inr 0) of
                  Inl e \<Rightarrow> Inl e
                | Inr keyword_score \<Rightarrow>
                    Inr \<lparr>score = keyword_score,
                         feedback = generate_feedback keyword_score mentioned missing,
                         keywords_mentioned = mentioned,
                         missing_keywords = missing\<rparr>)))"

section \<open>JobService._sort_jobs_by_relevance\<close>

record job_posting =
  j_id :: uuid
  j_title :: string
  j_company :: string
  j_location :: string
  j_description :: string
  j_requirements :: "string list"
  j_salary_range :: "string option"
  j_posting_url :: string
  j_source :: string
  j_posted_date :: datetime
  j_skills_required :: "string list"
  j_experience_level :: string

text \<open>\<open>sum(1 for skill in user_skills if any(skill.lower() in req.lower() for req in ...))\<close>\<close>

definition calculate_relevance :: "string list \<Rightarrow> job_posting \<Rightarrow> int" where
  "calculate_relevance user_skills job =
     sum_list (map (\<lambda>skill. 1)
       (filter (\<lambda>skill. list_ex (\<lambda>req. str_in (lower skill) (lower req))
                          (j_skills_required job))
          user_skills))"

text \<open>
  \<open>sorted(xs, key=key, reverse=True)\<close>: Python's sort is stable, and with
  \<open>reverse=True\<close> elements with equal keys still keep their original order; this is
  the stable sort on the negated key.
\<close>

definition sorted_reverse :: "('a \<Rightarrow> int) \<Rightarrow> 'a list \<Rightarrow> 'a list" where
  "sorted_reverse key xs = sort_key (\<lambda>x. - key x) xs"

definition sort_jobs_by_relevance :: "job_posting list \<Rightarrow> string list \<Rightarrow> job_posting list" where
  "sort_jobs_by_relevance jobs user_skills =
     sorted_reverse (calculate_relevance user_skills) jobs"

section \<open>ProgressService._get_weekly_progress and _get_category_performance\<close>

text \<open>
  A \<open>defaultdict\<close> is an association list in order of first insertion; reading a missing
  key inserts the default bucket.  \<open>date.weekday()\<close> is \<open>0\<close> on Monday, and ordinal
  \<open>1\<close> is a Monday.
\<close>

record bucket =
  questions_attempted :: int
  average_score :: real
  scores :: "real list"

record summary =
  s_questions_attempted :: int
  s_average_score :: real

definition default_bucket :: bucket where
  "default_bucket = \<lparr>questions_attempted = 0, average_score = 0, scores = []\<rparr>"

fun modify :: "'k \<Rightarrow> (bucket \<Rightarrow> bucket) \<Rightarrow> ('k \<times> bucket) list \<Rightarrow> ('k \<times> bucket) list" where
  "modify k f [] = [(k, f default_bucket)]"
| "modify k f ((k', b) # rest) =
     (if k' = k then (k', f b) # rest else (k', b) # modify k f rest)"

definition weekday :: "datetime \<Rightarrow> int" where
  "weekday dt = (ordinal dt + 6) mod 7"

text \<open>One pass of either loop for a bucket key: count the answer, keep a truthy score.\<close>

definition record_answer ::
  "'k \<Rightarrow> user_answer \<Rightarrow> ('k \<times> bucket) list \<Rightarrow> ('k \<times> bucket) list" where
  "record_answer k answer d =
     (let d1 = modify k (\<lambda>b. b\<lparr>questions_attempted := questions_attempted b + 1\<rparr>) d
      in case a_confidence_score answer of
           None \<Rightarrow> d1
         | Some sc \<Rightarrow> if sc \<noteq> 0 then modify k (\<lambda>b. b\<lparr>scores := scores b @ [sc]\<rparr>) d1 else d1)"

text \<open>The second loop: set the average where there are scores, then drop the scores.\<close>

definition finish_bucket :: "bucket \<Rightarrow> summary" where
  "finish_bucket b =
     (let b1 = (if scores b \<noteq> []
                then b\<lparr>average_score := sum_list (scores b) / of_nat (length (scores b))\<rparr>
                else b)
      in \<lparr>s_questions_attempted = questions_attempted b1,
          s_average_score = average_score b1\<rparr>)"

definition get_weekly_progress :: "user_answer list \<Rightarrow> (int \<times> summary) list" where
  "get_weekly_progress answers =
     map (\<lambda>(week, data). (week, finish_bucket data))
       (foldl (\<lambda>weekly_data answer.
                 record_answer (ordinal (a_created_at answer) - weekday (a_created_at answer))
                   answer weekly_data)
          [] answers)"

definition get_category_performance ::
  "database \<Rightarrow> user_answer list \<Rightarrow> (string \<times> summary) list" where
  "get_category_performance db answers =
     map (\<lambda>(category, data). (category, finish_bucket data))
       (foldl (\<lambda>categories answer.
                 case one_row (filter (\<lambda>q. q_id q = a_question_id answer)
                                 (interview_questions db)) of
                   None \<Rightarrow> categories
                 | Some question \<Rightarrow> record_answer (q_category question) answer categories)
          [] answers)"

section \<open>delete_file\<close>

text \<open>
  The object store is external: \<open>delete_object\<close> is an argument that, for a store, a
  bucket and a key, either raises (\<open>Inl\<close> the message) or returns the store without the
  object.
\<close>

definition delete_file ::
  "('s \<Rightarrow> string \<Rightarrow> string \<Rightarrow> string + 's) \<Rightarrow> string \<Rightarrow> database \<Rightarrow> 's \<Rightarrow> uuid \<Rightarrow> uuid
     \<Rightarrow> database \<times> 's \<times> (http_error + string)" where
  "delete_file delete_object bucket_name db s3 file_id current_user_id =
     (case one_row (filter (\<lambda>f. f_id f = file_id \<and> f_user_id f = current_user_id)
                      (media_files db)) of
        None \<Rightarrow> (db, s3, Inl (HTTPException 404 ''File not found''))
      | Some file_info \<Rightarrow>
          (case delete_object s3 bucket_name
                  (''uploads/'' @ current_user_id @ ''/'' @ f_filename file_info) of
             Inl e \<Rightarrow> (db, s3, Inl (HTTPException 500 e))
           | Inr s3' \<Rightarrow>
               (db\<lparr>media_files := filter (\<lambda>f. f_id f \<noteq> file_id) (media_files db)\<rparr>, s3',
                Inr ''File deleted successfully'')))"

section \<open>Predicates used in the statements\<close>

text \<open>
  A progress row is well-formed when its attempt count is not negative and its mastery
  level, where it has one, lies between \<open>0\<close> and \<open>1\<close>.
\<close>

definition progress_ok :: "question_progress \<Rightarrow> bool" where
  "progress_ok p \<longleftrightarrow>
     0 \<le> p_attempts p \<and>
     (case p_mastery_level p of None \<Rightarrow> True | Some m \<Rightarrow> 0 \<le> m \<and> m \<le> 1)"

text \<open>The row has a mastery level and it lies between \<open>0\<close> and \<open>1\<close>.\<close>

definition mastery_in_unit :: "question_progress \<Rightarrow> bool" where
  "mastery_in_unit p \<longleftrightarrow>
     (case p_mastery_level p of None \<Rightarrow> False | Some m \<Rightarrow> 0 \<le> m \<and> m \<le> 1)"

text \<open>The answer as \<open>submit_answer\<close> stores it: under the id of the current user.\<close>

definition stored_answer :: "uuid \<Rightarrow> user_answer \<Rightarrow> user_answer" where
  "stored_answer current_user_id answer =
     answer\<lparr>a_user_id := current_user_id, a_updated_at := None\<rparr>"

text \<open>Two progress rows agree on every column but \<open>attempts\<close> and \<open>last_attempt_date\<close>.\<close>

definition only_attempt_fields_differ :: "question_progress \<Rightarrow> question_progress \<Rightarrow> bool" where
  "only_attempt_fields_differ old new \<longleftrightarrow>
     p_user_id new = p_user_id old \<and> p_question_id new = p_question_id old \<and>
     p_status new = p_status old \<and> p_mastery_level new = p_mastery_level old \<and>
     p_notes new = p_notes old"

text \<open>
  The average of a bucket in the words of the specification: the mean of the confidence
  scores that the answers carry (every score that is not \<open>None\<close>), and \<open>0\<close> when no
  answer carries one.
\<close>

definition available_scores :: "user_answer list \<Rightarrow> real list" where
  "available_scores answers = List.map_filter a_confidence_score answers"

definition mean_of_available_scores :: "user_answer list \<Rightarrow> real" where
  "mean_of_available_scores answers =
     (if available_scores answers = [] then 0
      else sum_list (available_scores answers) / of_nat (length (available_scores answers)))"

section \<open>Example data\<close>

definition example_now :: datetime where
  "example_now = \<lparr>ordinal = 739000, second_of_day = 0\<rparr>"

definition example_question :: interview_question where
  "example_question =
     \<lparr>q_id = ''q1'', q_category = ''algorithms'', q_difficulty = ''easy'',
      q_title = ''Two sum'', q_description = ''Find two numbers'',
      q_sample_answer = ''Use a hash map'', q_keywords = [''Hash'', ''map''],
      q_created_at = example_now, q_tags = [''arrays''], q_company_tags = [''acme''],
      q_likes = 0, q_views = 0\<rparr>"

definition example_answer :: user_answer where
  "example_answer =
     \<lparr>a_id = ''a1'', a_user_id = ''u1'', a_question_id = ''q1'',
      a_answer_text = ''I would use a hash map'', a_voice_recording_url = None,
      a_feedback = None, a_confidence_score = Some 1, a_created_at = example_now,
      a_updated_at = None\<rparr>"

definition example_progress :: question_progress where
  "example_progress =
     \<lparr>p_user_id = ''u1'', p_question_id = ''q1'', p_status = ''in_progress'',
      p_attempts = 1, p_last_attempt_date = None, p_mastery_level = Some (1/2),
      p_notes = None\<rparr>"

definition example_file :: media_file where
  "example_file =
     \<lparr>f_id = ''f1'', f_user_id = ''u1'', f_filename = ''5d2c.pdf'',
      f_original_filename = ''cv.pdf'', f_category = None, f_tags = None,
      f_upload_date = example_now, f_file_type = Some ''application/pdf'',
      f_file_size = Some 1024\<rparr>"

definition example_db :: database where
  "example_db =
     \<lparr>users = [], interview_questions = [example_question], user_answers = [],
      question_progress_rows = [example_progress], media_files = [example_file]\<rparr>"

definition example_registration :: user_create where
  "example_registration =
     \<lparr>c_email = ''ada@example.org'', c_username = ''ada'', c_full_name = ''Ada L'',
      c_password = ''secret''\<rparr>"

definition example_hash :: "string \<Rightarrow> string" where
  "example_hash password = ''hashed:'' @ password"

definition example_job1 :: job_posting where
  "example_job1 =
     \<lparr>j_id = ''j1'', j_title = ''Backend engineer'', j_company = ''Acme'',
      j_location = ''Remote'', j_description = ''Build services'', j_requirements = [],
      j_salary_range = None, j_posting_url = ''https://example.org/j1'',
      j_source = ''indeed'', j_posted_date = example_now,
      j_skills_required = [''Python'', ''PostgreSQL''], j_experience_level = ''senior''\<rparr>"

definition example_job2 :: job_posting where
  "example_job2 =
     \<lparr>j_id = ''j2'', j_title = ''Systems engineer'', j_company = ''Initech'',
      j_location = ''Remote'', j_description = ''Build tools'', j_requirements = [],
      j_salary_range = None, j_posting_url = ''https://example.org/j2'',
      j_source = ''linkedin'', j_posted_date = example_now,
      j_skills_required = [''Go''], j_experience_level = ''junior''\<rparr>"

text \<open>A store that rejects a \<open>LIMIT\<close> that is not positive and else keeps the first rows.\<close>

definition example_limit_clause ::
  "int \<Rightarrow> interview_question list \<Rightarrow> string + interview_question list" where
  "example_limit_clause n rows =
     (if n \<le> 0 then Inl ''LIMIT must be strictly positive'' else Inr (take (nat n) rows))"

text \<open>An object store as the list of its keys, one that deletes and one that fails.\<close>

definition example_delete_ok :: "string list \<Rightarrow> string \<Rightarrow> string \<Rightarrow> string + string list" where
  "example_delete_ok store bucket key = Inr (removeAll key store)"

definition example_delete_fails :: "string list \<Rightarrow> string \<Rightarrow> string \<Rightarrow> string + string list" where
  "example_delete_fails store bucket key = Inl ''AccessDenied''"

section \<open>Queries\<close>

lemma one_row_None_iff: "one_row xs = None \<longleftrightarrow> xs = []"
  by (cases xs) (simp_all add: one_row_def)

lemma one_row_Some_mem: "one_row xs = Some r \<Longrightarrow> r \<in> set xs"
  by (cases xs) (auto simp: one_row_def)

lemma one_row_map: "one_row (map f xs) = map_option f (one_row xs)"
  by (cases xs) (simp_all add: one_row_def)

lemma filter_map_keyed:
  assumes "\<And>p. P (f p) = P p"
  shows "filter P (map (\<lambda>p. if P p then f p else p) xs) = map f (filter P xs)"
  using assms by (induction xs) auto

lemma select_progress_after_update:
  assumes "\<And>p. progress_key u q (f p) = progress_key u q p"
  shows "select_progress
           (db\<lparr>question_progress_rows :=
                map (\<lambda>p. if progress_key u q p then f p else p) (question_progress_rows db)\<rparr>)
           u q
         = map f (select_progress db u q)"
  unfolding select_progress_def using filter_map_keyed [of "progress_key u q" f, OF assms]
  by simp

lemma select_progress_user_answers [simp]:
  "select_progress (db\<lparr>user_answers := v\<rparr>) u q = select_progress db u q"
  by (simp add: select_progress_def)

lemma select_progress_subset:
  "set (select_progress db u q) \<subseteq> set (question_progress_rows db)"
  by (auto simp: select_progress_def)

lemma question_lookup_None:
  "one_row (filter (\<lambda>q. q_id q = k) qs) = None \<longleftrightarrow> k \<notin> q_id ` set qs"
  by (auto simp: one_row_None_iff filter_empty_conv)

lemma email_lookup_None:
  "one_row (filter (\<lambda>r. u_email r = e) rows) = None \<longleftrightarrow> e \<notin> u_email ` set rows"
  by (auto simp: one_row_None_iff filter_empty_conv)

section \<open>The running mean of update_mastery_level\<close>

text \<open>
  C1.  When \<open>update_mastery_level\<close> finds a progress row with mastery \<open>m\<close> and
  attempts \<open>a\<close> (\<open>a\<close> not \<open>-1\<close>, where the formula has no value), it succeeds, and the
  row it then finds has mastery exactly \<open>(m * a + s) / (a + 1)\<close> and attempts
  \<open>a + 1\<close>: the divisor is formed from the attempts as they were read.
\<close>

theorem update_mastery_level_running_mean:
  assumes "one_row (select_progress db u q) = Some row"
    and "p_mastery_level row = Some m"
    and "p_attempts row = a"
    and "a \<noteq> - 1"
  shows "snd (update_mastery_level db u q s now) = Inr () \<and>
         one_row (select_progress (fst (update_mastery_level db u q s now)) u q)
           = Some (row\<lparr>p_mastery_level := Some ((m * of_int a + s) / of_int (a + 1)),
                       p_attempts := a + 1, p_last_attempt_date := Some now\<rparr>)"
proof -
  have nz: "a + 1 \<noteq> 0" using assms(4) by arith
  define nm where "nm = (m * of_int a + s) / of_int (a + 1)"
  define f :: "question_progress \<Rightarrow> question_progress" where "f = (\<lambda>p. p\<lparr>p_mastery_level := Some nm,
                  p_attempts := p_attempts p + 1, p_last_attempt_date := Some now\<rparr>)"
  define db' where "db' = db\<lparr>question_progress_rows :=
      map (\<lambda>p. if progress_key u q p then f p else p) (question_progress_rows db)\<rparr>"
  have res: "update_mastery_level db u q s now = (db', Inr ())"
    using assms(1-3) nz
    by (simp add: update_mastery_level_def Let_def db'_def f_def nm_def)
  have key: "\<And>p. progress_key u q (f p) = progress_key u q p"
    by (simp add: progress_key_def f_def)
  have "select_progress db' u q = map f (select_progress db u q)"
    unfolding select_progress_def db'_def using filter_map_keyed[of "progress_key u q" f, OF key]
    by simp
  then have "one_row (select_progress db' u q) = Some (f row)"
    using assms(1) by (simp add: one_row_map)
  then show ?thesis
    using assms(3) by (simp add: res f_def nm_def)
qed

theorem update_mastery_level_running_mean_witness:
  "one_row (select_progress example_db ''u1'' ''q1'') = Some example_progress \<and>
   p_mastery_level example_progress = Some (1/2) \<and>
   p_attempts example_progress = 1 \<and> (1::int) \<noteq> - 1 \<and>
   snd (update_mastery_level example_db ''u1'' ''q1'' 1 example_now) = Inr () \<and>
   one_row (select_progress (fst (update_mastery_level example_db ''u1'' ''q1'' 1 example_now))
              ''u1'' ''q1'')
     = Some (example_progress\<lparr>p_mastery_level := Some (3/4), p_attempts := 2,
                               p_last_attempt_date := Some example_now\<rparr>)"
proof -
  have h1: "one_row (select_progress example_db ''u1'' ''q1'') = Some example_progress"
    by (simp add: select_progress_def example_db_def example_progress_def progress_key_def
        one_row_def)
  have h2: "p_mastery_level example_progress = Some (1/2)"
    by (simp add: example_progress_def)
  have h3: "p_attempts example_progress = 1"
    by (simp add: example_progress_def)
  have h4: "(1::int) \<noteq> - 1" by simp
  show ?thesis
    using update_mastery_level_running_mean [OF h1 h2 h3 h4, of 1 example_now] h1 h2 h3
    by simp
qed

text \<open>Three updates in a row, from no row: scores 0.6, 0.9 and 0.3 give their mean.\<close>

lemma three_updates:
  "question_progress_rows
     (fst (update_mastery_level
        (fst (update_mastery_level
           (fst (update_mastery_level (example_db\<lparr>question_progress_rows := []\<rparr>)
                   ''u1'' ''q1'' (6/10) example_now))
           ''u1'' ''q1'' (9/10) example_now))
        ''u1'' ''q1'' (3/10) example_now))
   = [\<lparr>p_user_id = ''u1'', p_question_id = ''q1'', p_status = ''in_progress'',
       p_attempts = 3, p_last_attempt_date = Some example_now,
       p_mastery_level = Some (6/10), p_notes = None\<rparr>]"
  by (simp add: update_mastery_level_def select_progress_def progress_key_def one_row_def
      example_db_def Let_def)

section \<open>Mastery stays between 0 and 1\<close>

lemma running_mean_bounds:
  fixes m s :: real and a :: int
  assumes "0 \<le> m" "m \<le> 1" "0 \<le> s" "s \<le> 1" "0 \<le> a"
  shows "0 \<le> (m * of_int a + s) / of_int (a + 1)"
    and "(m * of_int a + s) / of_int (a + 1) \<le> 1"
proof -
  have a0: "(0::real) \<le> of_int a" using assms(5) by simp
  have pos: "(0::real) < of_int (a + 1)" using assms(5) by simp
  have "0 \<le> m * of_int a" using assms(1) a0 by simp
  then have num0: "0 \<le> m * of_int a + s" using assms(3) by simp
  show "0 \<le> (m * of_int a + s) / of_int (a + 1)"
    using num0 pos by simp
  have "m * of_int a \<le> 1 * of_int a"
    using assms(2) a0 by (rule mult_right_mono)
  then have "m * of_int a + s \<le> of_int (a + 1)" using assms(4) by simp
  then show "(m * of_int a + s) / of_int (a + 1) \<le> 1"
    using pos by (simp add: divide_le_eq)
qed

lemma update_mastery_level_cases:
  "(\<exists>e. update_mastery_level db u q s now = (db, Inl e)) \<or>
   (\<exists>row m. one_row (select_progress db u q) = Some row \<and> p_mastery_level row = Some m \<and>
      update_mastery_level db u q s now =
        (db\<lparr>question_progress_rows :=
            map (\<lambda>p. if progress_key u q p
                      then p\<lparr>p_mastery_level :=
                               Some ((m * of_int (p_attempts row) + s) / of_int (p_attempts row + 1)),
                             p_attempts := p_attempts p + 1,
                             p_last_attempt_date := Some now\<rparr>
                      else p)
                (question_progress_rows db)\<rparr>, Inr ())) \<or>
   (select_progress db u q = [] \<and>
      update_mastery_level db u q s now =
        (db\<lparr>question_progress_rows := question_progress_rows db @
             [\<lparr>p_user_id = u, p_question_id = q, p_status = ''in_progress'', p_attempts = 1,
               p_last_attempt_date = Some now, p_mastery_level = Some s, p_notes = None\<rparr>]\<rparr>,
         Inr ()))"
  by (auto simp: update_mastery_level_def Let_def one_row_None_iff split: option.splits)

lemma update_mastery_level_preserves:
  assumes inv: "\<forall>p \<in> set (question_progress_rows db). progress_ok p"
    and s: "0 \<le> s" "s \<le> 1"
  shows "\<forall>p \<in> set (question_progress_rows (fst (update_mastery_level db u q s now))).
           progress_ok p"
proof -
  consider
    (err) e where "update_mastery_level db u q s now = (db, Inl e)"
  | (upd) row m where "one_row (select_progress db u q) = Some row" "p_mastery_level row = Some m"
      "update_mastery_level db u q s now =
        (db\<lparr>question_progress_rows :=
            map (\<lambda>p. if progress_key u q p
                      then p\<lparr>p_mastery_level :=
                               Some ((m * of_int (p_attempts row) + s) / of_int (p_attempts row + 1)),
                             p_attempts := p_attempts p + 1,
                             p_last_attempt_date := Some now\<rparr>
                      else p)
                (question_progress_rows db)\<rparr>, Inr ())"
  | (new) "update_mastery_level db u q s now =
        (db\<lparr>question_progress_rows := question_progress_rows db @
             [\<lparr>p_user_id = u, p_question_id = q, p_status = ''in_progress'', p_attempts = 1,
               p_last_attempt_date = Some now, p_mastery_level = Some s, p_notes = None\<rparr>]\<rparr>,
         Inr ())"
    using update_mastery_level_cases[of db u q s now] by blast
  then show ?thesis
  proof cases
    case err
    then show ?thesis using inv by simp
  next
    case upd
    have "row \<in> set (question_progress_rows db)"
      using one_row_Some_mem[OF upd(1)] select_progress_subset by blast
    then have ok: "progress_ok row" using inv by blast
    then have m: "0 \<le> m" "m \<le> 1" and a: "0 \<le> p_attempts row"
      using upd(2) by (simp_all add: progress_ok_def)
    note b = running_mean_bounds[OF m s a]
    show ?thesis
      using inv b by (auto simp: upd(3) progress_ok_def)
  next
    case new
    then show ?thesis using inv s by (auto simp: progress_ok_def)
  qed
qed

lemma update_mastery_level_sets_bounded:
  assumes inv: "\<forall>p \<in> set (question_progress_rows db). progress_ok p"
    and s: "0 \<le> s" "s \<le> 1"
    and ok: "snd (update_mastery_level db u q s now) = Inr ()"
  shows "select_progress (fst (update_mastery_level db u q s now)) u q \<noteq> [] \<and>
         (\<forall>p \<in> set (select_progress (fst (update_mastery_level db u q s now)) u q).
            mastery_in_unit p)"
proof -
  consider
    (err) e where "update_mastery_level db u q s now = (db, Inl e)"
  | (upd) row m where "one_row (select_progress db u q) = Some row" "p_mastery_level row = Some m"
      "update_mastery_level db u q s now =
        (db\<lparr>question_progress_rows :=
            map (\<lambda>p. if progress_key u q p
                      then p\<lparr>p_mastery_level :=
                               Some ((m * of_int (p_attempts row) + s) / of_int (p_attempts row + 1)),
                             p_attempts := p_attempts p + 1,
                             p_last_attempt_date := Some now\<rparr>
                      else p)
                (question_progress_rows db)\<rparr>, Inr ())"
  | (new) "select_progress db u q = []" "update_mastery_level db u q s now =
        (db\<lparr>question_progress_rows := question_progress_rows db @
             [\<lparr>p_user_id = u, p_question_id = q, p_status = ''in_progress'', p_attempts = 1,
               p_last_attempt_date = Some now, p_mastery_level = Some s, p_notes = None\<rparr>]\<rparr>,
         Inr ())"
    using update_mastery_level_cases[of db u q s now] by blast
  then show ?thesis
  proof cases
    case err
    then show ?thesis using ok by simp
  next
    case upd
    have mem: "row \<in> set (select_progress db u q)"
      using one_row_Some_mem[OF upd(1)] .
    then have "row \<in> set (question_progress_rows db)"
      using select_progress_subset by blast
    then have "progress_ok row" using inv by blast
    then have m: "0 \<le> m" "m \<le> 1" and a: "0 \<le> p_attempts row"
      using upd(2) by (simp_all add: progress_ok_def)
    note b = running_mean_bounds[OF m s a]
    define f :: "question_progress \<Rightarrow> question_progress" where
      "f = (\<lambda>p. p\<lparr>p_mastery_level :=
                      Some ((m * of_int (p_attempts row) + s) / of_int (p_attempts row + 1)),
                    p_attempts := p_attempts p + 1,
                    p_last_attempt_date := Some now\<rparr>)"
    have key: "\<And>p. progress_key u q (f p) = progress_key u q p"
      by (simp add: progress_key_def f_def)
    have res: "update_mastery_level db u q s now =
                 (db\<lparr>question_progress_rows :=
                      map (\<lambda>p. if progress_key u q p then f p else p)
                        (question_progress_rows db)\<rparr>, Inr ())"
      by (simp add: upd(3) f_def)
    have sel: "select_progress (fst (update_mastery_level db u q s now)) u q
               = map f (select_progress db u q)"
      by (simp add: res select_progress_after_update [OF key])
    have "\<And>p. mastery_in_unit (f p)"
      using b by (simp add: mastery_in_unit_def f_def)
    then show ?thesis
      using mem unfolding sel by auto
  next
    case new
    have "select_progress (fst (update_mastery_level db u q s now)) u q =
            [\<lparr>p_user_id = u, p_question_id = q, p_status = ''in_progress'', p_attempts = 1,
              p_last_attempt_date = Some now, p_mastery_level = Some s, p_notes = None\<rparr>]"
      using new(1) by (simp add: new(2) select_progress_def progress_key_def)
    then show ?thesis using s
      by (simp add: mastery_in_unit_def)
  qed
qed

lemma submit_answer_preserves:
  assumes inv: "\<forall>p \<in> set (question_progress_rows db). progress_ok p"
  shows "\<forall>p \<in> set (question_progress_rows (fst (submit_answer db cu ans))). progress_ok p"
  using inv
  by (auto simp: submit_answer_def Let_def progress_ok_def split: option.splits)

lemma submit_answer_keeps_mastery:
  assumes "i < length (question_progress_rows db)"
  shows "p_mastery_level (question_progress_rows (fst (submit_answer db cu ans)) ! i)
           = p_mastery_level (question_progress_rows db ! i)"
  using assms
  by (simp add: submit_answer_def Let_def nth_append split: option.splits)

text \<open>
  C2.  In a store where every progress row has non-negative attempts and a mastery level
  (where it has one) in \<open>[0, 1]\<close>, and for a score \<open>s\<close> in \<open>[0, 1]\<close>:
  \<open>update_mastery_level\<close> leaves such a store; when it succeeds, in its update branch
  or its create branch, the rows of the pair have a mastery level in \<open>[0, 1]\<close>; it
  succeeds whenever there is no row yet or the row read has a mastery level in
  \<open>[0, 1]\<close>; and \<open>submit_answer\<close>, the other operation that writes progress rows,
  leaves such a store and changes no mastery level of a row that was there.
\<close>

theorem mastery_level_stays_in_unit_interval:
  assumes "\<forall>p \<in> set (question_progress_rows db). progress_ok p"
    and "0 \<le> s" and "s \<le> 1"
  shows "(\<forall>p \<in> set (question_progress_rows (fst (update_mastery_level db u q s now))).
            progress_ok p) \<and>
         (snd (update_mastery_level db u q s now) = Inr () \<longrightarrow>
            select_progress (fst (update_mastery_level db u q s now)) u q \<noteq> [] \<and>
            (\<forall>p \<in> set (select_progress (fst (update_mastery_level db u q s now)) u q).
               mastery_in_unit p)) \<and>
         ((case one_row (select_progress db u q) of
             None \<Rightarrow> True | Some row \<Rightarrow> mastery_in_unit row) \<longrightarrow>
            snd (update_mastery_level db u q s now) = Inr ()) \<and>
         (\<forall>p \<in> set (question_progress_rows (fst (submit_answer db cu ans))). progress_ok p) \<and>
         (\<forall>i < length (question_progress_rows db).
            p_mastery_level (question_progress_rows (fst (submit_answer db cu ans)) ! i)
              = p_mastery_level (question_progress_rows db ! i))"
proof -
  have succeeds: "snd (update_mastery_level db u q s now) = Inr ()"
    if h: "case one_row (select_progress db u q) of None \<Rightarrow> True | Some row \<Rightarrow> mastery_in_unit row"
  proof (cases "one_row (select_progress db u q)")
    case None
    then show ?thesis by (simp add: update_mastery_level_def)
  next
    case (Some row)
    have "row \<in> set (question_progress_rows db)"
      using one_row_Some_mem [OF Some] select_progress_subset [of db u q] by auto
    then have "0 \<le> p_attempts row" using assms(1) by (simp add: progress_ok_def)
    then have "p_attempts row + 1 \<noteq> 0" by arith
    moreover obtain m where "p_mastery_level row = Some m"
      using h Some by (auto simp: mastery_in_unit_def split: option.splits)
    ultimately show ?thesis
      using Some by (simp add: update_mastery_level_def Let_def)
  qed
  show ?thesis
    using update_mastery_level_preserves [OF assms, of u q now]
      update_mastery_level_sets_bounded [OF assms, of u q now]
      submit_answer_preserves [OF assms(1), of cu ans] succeeds
      submit_answer_keeps_mastery [of _ db cu ans]
    by blast
qed

lemma example_db_ok: "\<forall>p \<in> set (question_progress_rows example_db). progress_ok p"
  by (simp add: example_db_def example_progress_def progress_ok_def)

theorem mastery_level_stays_in_unit_interval_witness:
  "list_all progress_ok (question_progress_rows example_db) \<and>
   (0::real) \<le> 1 \<and> (1::real) \<le> 1 \<and>
   snd (update_mastery_level example_db ''u1'' ''q1'' 1 example_now) = Inr () \<and>
   list_all progress_ok
     (question_progress_rows (fst (update_mastery_level example_db ''u1'' ''q1'' 1 example_now))) \<and>
   list_all mastery_in_unit
     (select_progress (fst (update_mastery_level example_db ''u1'' ''q1'' 1 example_now))
        ''u1'' ''q1'') \<and>
   list_all progress_ok
     (question_progress_rows (fst (submit_answer example_db ''u1'' example_answer)))"
proof -
  have h1: "(0::real) \<le> 1" and h2: "(1::real) \<le> 1" by simp_all
  have h3: "case one_row (select_progress example_db ''u1'' ''q1'') of
              None \<Rightarrow> True | Some row \<Rightarrow> mastery_in_unit row"
    by (simp add: select_progress_def example_db_def example_progress_def progress_key_def
        one_row_def mastery_in_unit_def)
  show ?thesis
    using mastery_level_stays_in_unit_interval
      [OF example_db_ok h1 h2, of "''u1''" "''q1''" example_now "''u1''" example_answer]
      example_db_ok h3
    by (simp add: list_all_iff)
qed

section \<open>submit_answer\<close>

lemma example_questions: "q_id ` set (interview_questions example_db) = {''q1''}"
  by (simp add: example_db_def example_question_def)

lemma example_select_u1:
  "select_progress example_db ''u1'' ''q1'' = [example_progress]"
  by (simp add: select_progress_def example_db_def example_progress_def progress_key_def)

lemma example_select_u2:
  "select_progress example_db ''u2'' ''q1'' = []"
  by (simp add: select_progress_def example_db_def example_progress_def progress_key_def)

text \<open>
  C3.  \<open>submit_answer\<close> answers 404 and leaves the store as it was when no question has
  the referenced id.  Otherwise it returns the answer, appends it to the answers, and: when
  a progress row of the user and the question exists, every such row has its attempts
  incremented by one and its last attempt date set to the answer's date, and no row is
  added; when none exists, one row is appended, with status \<open>in_progress\<close> and one
  attempt.
\<close>

theorem submit_answer_upsert:
  "(a_question_id ans \<notin> q_id ` set (interview_questions db) \<longrightarrow>
      submit_answer db cu ans = (db, Inl (HTTPException 404 ''Question not found''))) \<and>
   (a_question_id ans \<in> q_id ` set (interview_questions db) \<longrightarrow>
      snd (submit_answer db cu ans) = Inr ans \<and>
      user_answers (fst (submit_answer db cu ans)) = user_answers db @ [stored_answer cu ans] \<and>
      (select_progress db cu (a_question_id ans) \<noteq> [] \<longrightarrow>
         length (question_progress_rows (fst (submit_answer db cu ans)))
           = length (question_progress_rows db) \<and>
         (\<forall>i < length (question_progress_rows db).
            progress_key cu (a_question_id ans) (question_progress_rows db ! i) \<longrightarrow>
              p_attempts (question_progress_rows (fst (submit_answer db cu ans)) ! i)
                = p_attempts (question_progress_rows db ! i) + 1 \<and>
              p_last_attempt_date (question_progress_rows (fst (submit_answer db cu ans)) ! i)
                = Some (a_created_at ans))) \<and>
      (select_progress db cu (a_question_id ans) = [] \<longrightarrow>
         question_progress_rows (fst (submit_answer db cu ans))
           = question_progress_rows db @
               [\<lparr>p_user_id = cu, p_question_id = a_question_id ans,
                 p_status = ''in_progress'', p_attempts = 1,
                 p_last_attempt_date = Some (a_created_at ans),
                 p_mastery_level = None, p_notes = None\<rparr>]))"
proof (intro conjI impI)
  assume "a_question_id ans \<notin> q_id ` set (interview_questions db)"
  then have "one_row (filter (\<lambda>q. q_id q = a_question_id ans) (interview_questions db)) = None"
    by (simp only: question_lookup_None not_False_eq_True)
  then show "submit_answer db cu ans = (db, Inl (HTTPException 404 ''Question not found''))"
    by (simp add: submit_answer_def)
next
  assume "a_question_id ans \<in> q_id ` set (interview_questions db)"
  then obtain question where
    q: "one_row (filter (\<lambda>q. q_id q = a_question_id ans) (interview_questions db)) = Some question"
    using question_lookup_None [of "a_question_id ans" "interview_questions db"] by fastforce
  show "snd (submit_answer db cu ans) = Inr ans"
    using q by (simp add: submit_answer_def Let_def split: option.splits)
  show "user_answers (fst (submit_answer db cu ans)) = user_answers db @ [stored_answer cu ans]"
    using q by (simp add: submit_answer_def Let_def stored_answer_def split: option.splits)
  {
    assume ex: "select_progress db cu (a_question_id ans) \<noteq> []"
    then obtain progress where
      p: "one_row (select_progress db cu (a_question_id ans)) = Some progress"
      using one_row_None_iff [of "select_progress db cu (a_question_id ans)"] by fastforce
    show "length (question_progress_rows (fst (submit_answer db cu ans)))
            = length (question_progress_rows db)"
      using q p by (simp add: submit_answer_def Let_def)
    show "\<forall>i < length (question_progress_rows db).
            progress_key cu (a_question_id ans) (question_progress_rows db ! i) \<longrightarrow>
              p_attempts (question_progress_rows (fst (submit_answer db cu ans)) ! i)
                = p_attempts (question_progress_rows db ! i) + 1 \<and>
              p_last_attempt_date (question_progress_rows (fst (submit_answer db cu ans)) ! i)
                = Some (a_created_at ans)"
      using q p by (simp add: submit_answer_def Let_def)
  }
  {
    assume "select_progress db cu (a_question_id ans) = []"
    then have p: "one_row (select_progress db cu (a_question_id ans)) = None"
      by (simp add: one_row_def)
    show "question_progress_rows (fst (submit_answer db cu ans))
           = question_progress_rows db @
               [\<lparr>p_user_id = cu, p_question_id = a_question_id ans,
                 p_status = ''in_progress'', p_attempts = 1,
                 p_last_attempt_date = Some (a_created_at ans),
                 p_mastery_level = None, p_notes = None\<rparr>]"
      using q p by (simp add: submit_answer_def Let_def)
  }
qed

theorem submit_answer_upsert_witness:
  "a_question_id (example_answer\<lparr>a_question_id := ''q9''\<rparr>)
      \<notin> q_id ` set (interview_questions example_db) \<and>
   submit_answer example_db ''u1'' (example_answer\<lparr>a_question_id := ''q9''\<rparr>)
     = (example_db, Inl (HTTPException 404 ''Question not found'')) \<and>
   a_question_id example_answer \<in> q_id ` set (interview_questions example_db) \<and>
   select_progress example_db ''u1'' (a_question_id example_answer) \<noteq> [] \<and>
   snd (submit_answer example_db ''u1'' example_answer) = Inr example_answer \<and>
   user_answers (fst (submit_answer example_db ''u1'' example_answer))
     = [stored_answer ''u1'' example_answer] \<and>
   p_attempts (question_progress_rows (fst (submit_answer example_db ''u1'' example_answer)) ! 0)
     = 2 \<and>
   p_last_attempt_date
      (question_progress_rows (fst (submit_answer example_db ''u1'' example_answer)) ! 0)
     = Some example_now \<and>
   select_progress example_db ''u2'' (a_question_id example_answer) = [] \<and>
   question_progress_rows (fst (submit_answer example_db ''u2'' example_answer))
     = [example_progress,
        \<lparr>p_user_id = ''u2'', p_question_id = ''q1'', p_status = ''in_progress'',
         p_attempts = 1, p_last_attempt_date = Some example_now,
         p_mastery_level = None, p_notes = None\<rparr>]"
proof -
  have q9: "a_question_id (example_answer\<lparr>a_question_id := ''q9''\<rparr>)
              \<notin> q_id ` set (interview_questions example_db)"
    by (simp add: example_questions)
  have q1: "a_question_id example_answer \<in> q_id ` set (interview_questions example_db)"
    by (simp add: example_questions example_answer_def)
  have u1: "select_progress example_db ''u1'' (a_question_id example_answer) \<noteq> []"
    by (simp add: example_answer_def example_select_u1)
  have u2: "select_progress example_db ''u2'' (a_question_id example_answer) = []"
    by (simp add: example_answer_def example_select_u2)
  have rows: "question_progress_rows example_db = [example_progress]"
    and answers: "user_answers example_db = []"
    by (simp_all add: example_db_def)
  have key: "progress_key ''u1'' (a_question_id example_answer) example_progress"
    and at: "p_attempts example_progress = 1" "a_created_at example_answer = example_now"
      "a_question_id example_answer = ''q1''"
    by (simp_all add: progress_key_def example_answer_def example_progress_def)
  show ?thesis
    using submit_answer_upsert
        [where db = example_db and cu = "''u1''" and ans = "example_answer\<lparr>a_question_id := ''q9''\<rparr>"]
      submit_answer_upsert [where db = example_db and cu = "''u1''" and ans = example_answer]
      submit_answer_upsert [where db = example_db and cu = "''u2''" and ans = example_answer]
      q9 q1 u1 u2 key
    by (simp add: rows answers at)
qed

text \<open>
  C10.  When a progress row of the user and the question exists, \<open>submit_answer\<close> keeps
  the number of progress rows, changes at most \<open>attempts\<close> and \<open>last_attempt_date\<close> in
  any row (user, question, status, mastery level and notes stay), and leaves every row of
  another pair as it was.
\<close>

theorem submit_answer_frame:
  assumes "select_progress db cu (a_question_id ans) \<noteq> []"
  shows "length (question_progress_rows (fst (submit_answer db cu ans)))
           = length (question_progress_rows db) \<and>
         (\<forall>i < length (question_progress_rows db).
            only_attempt_fields_differ (question_progress_rows db ! i)
              (question_progress_rows (fst (submit_answer db cu ans)) ! i) \<and>
            (\<not> progress_key cu (a_question_id ans) (question_progress_rows db ! i) \<longrightarrow>
               question_progress_rows (fst (submit_answer db cu ans)) ! i
                 = question_progress_rows db ! i))"
proof -
  obtain progress where
    p: "one_row (select_progress db cu (a_question_id ans)) = Some progress"
    using assms one_row_None_iff [of "select_progress db cu (a_question_id ans)"] by fastforce
  show ?thesis
  proof (cases "one_row (filter (\<lambda>q. q_id q = a_question_id ans) (interview_questions db))")
    case None
    then show ?thesis by (simp add: submit_answer_def only_attempt_fields_differ_def)
  next
    case (Some question)
    then show ?thesis
      using p by (simp add: submit_answer_def Let_def only_attempt_fields_differ_def)
  qed
qed

theorem submit_answer_frame_witness:
  "select_progress example_db ''u1'' (a_question_id example_answer) \<noteq> [] \<and>
   length (question_progress_rows (fst (submit_answer example_db ''u1'' example_answer))) = 1 \<and>
   only_attempt_fields_differ example_progress
     (question_progress_rows (fst (submit_answer example_db ''u1'' example_answer)) ! 0)"
proof -
  have u1: "select_progress example_db ''u1'' (a_question_id example_answer) \<noteq> []"
    by (simp add: example_answer_def example_select_u1)
  have rows: "question_progress_rows example_db = [example_progress]"
    by (simp add: example_db_def)
  show ?thesis
    using submit_answer_frame [OF u1] u1
    by (simp add: rows)
qed

section \<open>register_user\<close>

lemma register_user_taken:
  assumes "c_email u \<in> u_email ` set (users db)"
  shows "register_user h i t db u = (db, Inl (HTTPException 400 ''Email already registered''))"
proof -
  have "one_row (filter (\<lambda>r. u_email r = c_email u) (users db)) \<noteq> None"
    using assms by (simp only: email_lookup_None not_not)
  then show ?thesis
    by (auto simp: register_user_def)
qed

lemma register_user_fresh:
  assumes "c_email u \<notin> u_email ` set (users db)"
  shows "fst (register_user h i t db u) =
           db\<lparr>users := users db @
              [\<lparr>u_id = i, u_email = c_email u, u_username = c_username u,
                u_full_name = c_full_name u, u_hashed_password = h (c_password u),
                u_created_at = t, u_is_active = True, u_skills = [],
                u_progress = [], u_preferences = []\<rparr>]\<rparr>"
    and "\<exists>r. snd (register_user h i t db u) = Inr r \<and> r_email r = c_email u"
proof -
  have "one_row (filter (\<lambda>r. u_email r = c_email u) (users db)) = None"
    using assms by (simp only: email_lookup_None not_False_eq_True)
  then show "fst (register_user h i t db u) =
           db\<lparr>users := users db @
              [\<lparr>u_id = i, u_email = c_email u, u_username = c_username u,
                u_full_name = c_full_name u, u_hashed_password = h (c_password u),
                u_created_at = t, u_is_active = True, u_skills = [],
                u_progress = [], u_preferences = []\<rparr>]\<rparr>"
    and "\<exists>r. snd (register_user h i t db u) = Inr r \<and> r_email r = c_email u"
    by (simp_all add: register_user_def Let_def)
qed

lemma register_user_email_present:
  "c_email u \<in> u_email ` set (users (fst (register_user h i t db u)))"
proof (cases "c_email u \<in> u_email ` set (users db)")
  case True
  then show ?thesis by (simp add: register_user_taken)
next
  case False
  then show ?thesis by (simp add: register_user_fresh(1))
qed

text \<open>
  C4.  After a registration with some email, a second registration with the same email
  answers 400 \<open>Email already registered\<close> and leaves the store as the first one left
  it; a registration whose email is in no user row succeeds and appends exactly one row,
  with that email.
\<close>

theorem register_user_conflict:
  "(c_email u2 = c_email u1 \<longrightarrow>
      register_user h2 i2 t2 (fst (register_user h1 i1 t1 db u1)) u2
        = (fst (register_user h1 i1 t1 db u1),
           Inl (HTTPException 400 ''Email already registered''))) \<and>
   (c_email u1 \<notin> u_email ` set (users db) \<longrightarrow>
      (\<exists>r. snd (register_user h1 i1 t1 db u1) = Inr r \<and> r_email r = c_email u1) \<and>
      (\<exists>row. users (fst (register_user h1 i1 t1 db u1)) = users db @ [row] \<and>
             u_email row = c_email u1))"
proof (intro conjI impI)
  assume "c_email u2 = c_email u1"
  then have "c_email u2 \<in> u_email ` set (users (fst (register_user h1 i1 t1 db u1)))"
    using register_user_email_present [of u1 h1 i1 t1 db] by simp
  then show "register_user h2 i2 t2 (fst (register_user h1 i1 t1 db u1)) u2
        = (fst (register_user h1 i1 t1 db u1),
           Inl (HTTPException 400 ''Email already registered''))"
    by (rule register_user_taken)
next
  assume fresh: "c_email u1 \<notin> u_email ` set (users db)"
  show "\<exists>r. snd (register_user h1 i1 t1 db u1) = Inr r \<and> r_email r = c_email u1"
    using register_user_fresh(2) [OF fresh] .
  show "\<exists>row. users (fst (register_user h1 i1 t1 db u1)) = users db @ [row] \<and>
             u_email row = c_email u1"
    by (simp add: register_user_fresh(1) [OF fresh])
qed

theorem register_user_conflict_witness:
  "c_email (example_registration\<lparr>c_username := ''ada2''\<rparr>) = c_email example_registration \<and>
   c_email example_registration \<notin> u_email ` set (users example_db) \<and>
   register_user example_hash ''id0'' example_now
       (fst (register_user example_hash ''id0'' example_now example_db example_registration))
       (example_registration\<lparr>c_username := ''ada2''\<rparr>)
     = (fst (register_user example_hash ''id0'' example_now example_db example_registration),
        Inl (HTTPException 400 ''Email already registered'')) \<and>
   length (users (fst (register_user example_hash ''id0'' example_now example_db
                         example_registration))) = 1"
proof -
  have same: "c_email (example_registration\<lparr>c_username := ''ada2''\<rparr>)
                = c_email example_registration"
    by simp
  have fresh: "c_email example_registration \<notin> u_email ` set (users example_db)"
    by (simp add: example_db_def)
  have none: "users example_db = []"
    by (simp add: example_db_def)
  show ?thesis
    using register_user_conflict
        [where ?u1.0 = example_registration
           and ?u2.0 = "example_registration\<lparr>c_username := ''ada2''\<rparr>"
           and ?h1.0 = example_hash and ?h2.0 = example_hash
           and ?i1.0 = "''id0''" and ?i2.0 = "''id0''"
           and ?t1.0 = example_now and ?t2.0 = example_now and db = example_db]
      same fresh
    by (auto simp: none)
qed

section \<open>get_questions\<close>

lemma when_truthy_holds:
  "list_all (\<lambda>c. holds c q) (when_truthy arg mk) \<longleftrightarrow>
     (\<forall>v. arg = Some v \<and> v \<noteq> [] \<longrightarrow> holds (mk v) q)"
  by (auto simp: when_truthy_def split: option.splits)

text \<open>
  The \<open>WHERE\<close> clause of the query is the conjunction of the filters that are given as a
  non-empty string, and of nothing else.
\<close>

lemma conditions_conjunction:
  "list_all (\<lambda>c. holds c q) (conditions category difficulty tag company) \<longleftrightarrow>
     (\<forall>c. category = Some c \<and> c \<noteq> [] \<longrightarrow> q_category q = c) \<and>
     (\<forall>d. difficulty = Some d \<and> d \<noteq> [] \<longrightarrow> q_difficulty q = d) \<and>
     (\<forall>t. tag = Some t \<and> t \<noteq> [] \<longrightarrow> t \<in> set (q_tags q)) \<and>
     (\<forall>c. company = Some c \<and> c \<noteq> [] \<longrightarrow> c \<in> set (q_company_tags q))"
  by (simp add: conditions_def when_truthy_holds)


text \<open>A result with a row makes the handler raise, whatever the filters.\<close>

lemma get_questions_raises_on_rows:
  "get_questions example_limit_clause example_db (Some []) None None None 10
     = Inl (Unhandled TypeError)"
  by (simp add: get_questions_def select_questions_def conditions_def when_truthy_def
      example_limit_clause_def example_db_def)




section \<open>Keyword coverage\<close>

lemma starts_with_iff: "starts_with xs ys \<longleftrightarrow> (\<exists>ss. ys = xs @ ss)"
  by (induction xs ys rule: starts_with.induct) auto

lemma str_in_iff: "str_in needle hay \<longleftrightarrow> (\<exists>ps ss. hay = ps @ needle @ ss)"
proof (induction hay)
  case Nil
  then show ?case by auto
next
  case (Cons y ys)
  show ?case
  proof
    assume "str_in needle (y # ys)"
    then consider "starts_with needle (y # ys)" | "str_in needle ys" by auto
    then show "\<exists>ps ss. y # ys = ps @ needle @ ss"
    proof cases
      case 1
      then obtain ss where "y # ys = needle @ ss" by (auto simp: starts_with_iff)
      then have "y # ys = [] @ needle @ ss" by simp
      then show ?thesis by blast
    next
      case 2
      then obtain ps ss where "ys = ps @ needle @ ss" using Cons.IH by blast
      then have "y # ys = (y # ps) @ needle @ ss" by simp
      then show ?thesis by blast
    qed
  next
    assume "\<exists>ps ss. y # ys = ps @ needle @ ss"
    then obtain ps ss where eq: "y # ys = ps @ needle @ ss" by blast
    show "str_in needle (y # ys)"
    proof (cases ps)
      case Nil
      then have "starts_with needle (y # ys)" using eq by (auto simp: starts_with_iff)
      then show ?thesis by simp
    next
      case (Cons p ps')
      then have "ys = ps' @ needle @ ss" using eq by simp
      then have "str_in needle ys" using Cons.IH by blast
      then show ?thesis by simp
    qed
  qed
qed

lemma check_keywords_filter:
  "check_keywords transcript ks (mentioned, missing) =
     (mentioned @ filter (\<lambda>k. str_in (lower k) (lower transcript)) ks,
      missing @ filter (\<lambda>k. \<not> str_in (lower k) (lower transcript)) ks)"
  by (induction ks arbitrary: mentioned missing) simp_all

text \<open>
  C6.  For a question that exists, with \<open>n\<close> keywords of which \<open>k\<close> occur in the
  transcript (both lower-cased, as a contiguous run), \<open>analyze_interview_response\<close>
  returns a result, never a \<open>ZeroDivisionError\<close>: the score is \<open>k / n\<close> when
  \<open>n > 0\<close> and \<open>0\<close> when \<open>n = 0\<close>, and the keywords found and missed are listed in
  the order of the question.
\<close>

theorem analyze_interview_response_score:
  assumes "one_row (filter (\<lambda>q. q_id q = question_id) (interview_questions db)) = Some question"
  shows "analyze_interview_response db transcript question_id =
           Inr \<lparr>score =
                  (if 0 < length (q_keywords question)
                   then of_nat (length (filter (\<lambda>k. str_in (lower k) (lower transcript))
                                          (q_keywords question)))
                          / of_nat (length (q_keywords question))
                   else 0),
                feedback =
                  generate_feedback
                    (if 0 < length (q_keywords question)
                     then of_nat (length (filter (\<lambda>k. str_in (lower k) (lower transcript))
                                            (q_keywords question)))
                            / of_nat (length (q_keywords question))
                     else 0)
                    (filter (\<lambda>k. str_in (lower k) (lower transcript)) (q_keywords question))
                    (filter (\<lambda>k. \<not> str_in (lower k) (lower transcript)) (q_keywords question)),
                keywords_mentioned =
                  filter (\<lambda>k. str_in (lower k) (lower transcript)) (q_keywords question),
                missing_keywords =
                  filter (\<lambda>k. \<not> str_in (lower k) (lower transcript)) (q_keywords question)\<rparr>"
  using assms
  by (simp add: analyze_interview_response_def check_keywords_filter truediv_def)

theorem analyze_interview_response_score_witness:
  "one_row (filter (\<lambda>q. q_id q = ''q1'') (interview_questions example_db)) = Some example_question \<and>
   score (projr (analyze_interview_response example_db ''I would use a HASH table'' ''q1''))
     = 1 / 2 \<and>
   keywords_mentioned
     (projr (analyze_interview_response example_db ''I would use a HASH table'' ''q1''))
     = [''Hash''] \<and>
   \<not> isl (analyze_interview_response
            (example_db\<lparr>interview_questions := [example_question\<lparr>q_keywords := []\<rparr>]\<rparr>)
            ''I would use a HASH table'' ''q1'') \<and>
   score (projr (analyze_interview_response
                   (example_db\<lparr>interview_questions := [example_question\<lparr>q_keywords := []\<rparr>]\<rparr>)
                   ''I would use a HASH table'' ''q1''))
     = 0"
proof -
  have h1: "one_row (filter (\<lambda>q. q_id q = ''q1'') (interview_questions example_db))
              = Some example_question"
    by (simp add: example_db_def example_question_def one_row_def)
  have h2: "one_row (filter (\<lambda>q. q_id q = ''q1'')
              (interview_questions
                 (example_db\<lparr>interview_questions := [example_question\<lparr>q_keywords := []\<rparr>]\<rparr>)))
              = Some (example_question\<lparr>q_keywords := []\<rparr>)"
    by (simp add: example_question_def one_row_def)
  have kw: "q_keywords example_question = [''Hash'', ''map'']"
    by (simp add: example_question_def)
  have found: "str_in (lower ''Hash'') (lower ''I would use a HASH table'')"
    and missed: "\<not> str_in (lower ''map'') (lower ''I would use a HASH table'')"
    by code_simp+
  show ?thesis
    using analyze_interview_response_score [OF h1, of "''I would use a HASH table''"]
      analyze_interview_response_score [OF h2, of "''I would use a HASH table''"]
      h1 found missed
    by (simp add: kw)
qed

section \<open>Ranking of job postings\<close>

lemma sum_list_ones: "sum_list (map (\<lambda>x. 1) xs) = int (length xs)"
  by (induction xs) simp_all

lemma calculate_relevance_count:
  "calculate_relevance user_skills job =
     int (length (filter (\<lambda>skill. \<exists>req \<in> set (j_skills_required job).
                                     str_in (lower skill) (lower req)) user_skills))"
  by (simp add: calculate_relevance_def sum_list_ones list_ex_iff)

lemma sorted_reverse_mset: "mset (sorted_reverse key xs) = mset xs"
  by (simp add: sorted_reverse_def)

lemma sorted_reverse_descending:
  "sorted_wrt (\<lambda>a b. key a \<ge> key b) (sorted_reverse key xs)"
proof -
  have "sorted (map (\<lambda>x. - key x) (sort_key (\<lambda>x. - key x) xs))"
    by (rule sorted_sort_key)
  then show ?thesis
    by (simp add: sorted_reverse_def sorted_map)
qed

lemma sorted_reverse_stable:
  "filter (\<lambda>x. key x = k) (sorted_reverse key xs) = filter (\<lambda>x. key x = k) xs"
proof -
  have "filter (\<lambda>x. - key x = - k) (sort_key (\<lambda>x. - key x) xs)
          = filter (\<lambda>x. - key x = - k) xs"
    by (rule sort_key_stable)
  then show ?thesis by (simp add: sorted_reverse_def)
qed

lemma sorted_reverse_before:
  assumes "i < length (sorted_reverse key xs)" "j < length (sorted_reverse key xs)"
    and "key (sorted_reverse key xs ! i) > key (sorted_reverse key xs ! j)"
  shows "i < j"
proof (rule ccontr)
  assume "\<not> i < j"
  then have "j < i \<or> j = i" by arith
  then show False
  proof
    assume "j < i"
    then have "key (sorted_reverse key xs ! j) \<ge> key (sorted_reverse key xs ! i)"
      using sorted_reverse_descending [of key xs] assms(1)
      by (simp add: sorted_wrt_iff_nth_less)
    then show False using assms(3) by simp
  next
    assume "j = i"
    then show False using assms(3) by simp
  qed
qed

text \<open>
  C7.  The ranking is a permutation of the postings, in descending order of relevance; the
  relevance of a posting is the number of user skills that occur, lower-cased, as a
  contiguous run in at least one lower-cased required-skill string of the posting; the
  postings of any one relevance are in the order they had in the input; and a posting of
  greater relevance stands before any posting of smaller relevance.
\<close>

theorem sort_jobs_by_relevance_ranking:
  "mset (sort_jobs_by_relevance jobs user_skills) = mset jobs \<and>
   sorted_wrt (\<lambda>a b. calculate_relevance user_skills a \<ge> calculate_relevance user_skills b)
     (sort_jobs_by_relevance jobs user_skills) \<and>
   (\<forall>job. calculate_relevance user_skills job =
      int (length (filter (\<lambda>skill. \<exists>req \<in> set (j_skills_required job).
                                       str_in (lower skill) (lower req)) user_skills))) \<and>
   (\<forall>k. filter (\<lambda>job. calculate_relevance user_skills job = k)
           (sort_jobs_by_relevance jobs user_skills)
         = filter (\<lambda>job. calculate_relevance user_skills job = k) jobs) \<and>
   (\<forall>i j. i < length jobs \<and> j < length jobs \<and>
       calculate_relevance user_skills (sort_jobs_by_relevance jobs user_skills ! i)
         > calculate_relevance user_skills (sort_jobs_by_relevance jobs user_skills ! j)
       \<longrightarrow> i < j)"
proof (intro conjI allI impI)
  show "mset (sort_jobs_by_relevance jobs user_skills) = mset jobs"
    unfolding sort_jobs_by_relevance_def by (rule sorted_reverse_mset)
  show "sorted_wrt (\<lambda>a b. calculate_relevance user_skills a \<ge> calculate_relevance user_skills b)
     (sort_jobs_by_relevance jobs user_skills)"
    unfolding sort_jobs_by_relevance_def by (rule sorted_reverse_descending)
  show "calculate_relevance user_skills job =
      int (length (filter (\<lambda>skill. \<exists>req \<in> set (j_skills_required job).
                                       str_in (lower skill) (lower req)) user_skills))" for job
    by (rule calculate_relevance_count)
  show "filter (\<lambda>job. calculate_relevance user_skills job = k)
           (sort_jobs_by_relevance jobs user_skills)
         = filter (\<lambda>job. calculate_relevance user_skills job = k) jobs" for k
    unfolding sort_jobs_by_relevance_def by (rule sorted_reverse_stable)
  fix i j
  assume a: "i < length jobs \<and> j < length jobs \<and>
       calculate_relevance user_skills (sort_jobs_by_relevance jobs user_skills ! i)
         > calculate_relevance user_skills (sort_jobs_by_relevance jobs user_skills ! j)"
  have len: "length (sorted_reverse (calculate_relevance user_skills) jobs) = length jobs"
    by (simp add: sorted_reverse_def)
  show "i < j"
  proof (rule sorted_reverse_before [of i "calculate_relevance user_skills" jobs j])
    show "i < length (sorted_reverse (calculate_relevance user_skills) jobs)"
      using a len by simp
    show "j < length (sorted_reverse (calculate_relevance user_skills) jobs)"
      using a len by simp
    show "calculate_relevance user_skills
            (sorted_reverse (calculate_relevance user_skills) jobs ! j)
          < calculate_relevance user_skills
              (sorted_reverse (calculate_relevance user_skills) jobs ! i)"
      using a unfolding sort_jobs_by_relevance_def by blast
  qed
qed

theorem sort_jobs_by_relevance_ranking_witness:
  "calculate_relevance [''python'', ''sql''] example_job1 = 2 \<and>
   calculate_relevance [''python'', ''sql''] example_job2 = 0 \<and>
   sort_jobs_by_relevance [example_job2, example_job1] [''python'', ''sql'']
     = [example_job1, example_job2] \<and>
   (0::nat) < length [example_job2, example_job1] \<and>
   (1::nat) < length [example_job2, example_job1] \<and>
   calculate_relevance [''python'', ''sql'']
       (sort_jobs_by_relevance [example_job2, example_job1] [''python'', ''sql''] ! 0)
     > calculate_relevance [''python'', ''sql'']
         (sort_jobs_by_relevance [example_job2, example_job1] [''python'', ''sql''] ! 1) \<and>
   (0::nat) < 1"
proof -
  have r1: "calculate_relevance [''python'', ''sql''] example_job1 = 2"
    and r2: "calculate_relevance [''python'', ''sql''] example_job2 = 0"
    by code_simp+
  have res: "sort_jobs_by_relevance [example_job2, example_job1] [''python'', ''sql'']
               = [example_job1, example_job2]"
    by (simp add: sort_jobs_by_relevance_def sorted_reverse_def r1 r2)
  note ranking = sort_jobs_by_relevance_ranking
      [of "[example_job2, example_job1]" "[''python'', ''sql'']"]
  have "(0::nat) < length [example_job2, example_job1] \<and>
        (1::nat) < length [example_job2, example_job1] \<and>
        calculate_relevance [''python'', ''sql'']
            (sort_jobs_by_relevance [example_job2, example_job1] [''python'', ''sql''] ! 0)
          > calculate_relevance [''python'', ''sql'']
              (sort_jobs_by_relevance [example_job2, example_job1] [''python'', ''sql''] ! 1)
        \<longrightarrow> (0::nat) < 1"
    using ranking by blast
  then show ?thesis
    by (simp add: res r1 r2)
qed

section \<open>Weekly and category averages\<close>

text \<open>
  C8 fails on the code: both loops keep a score only when it is truthy, so a score of
  \<open>0.0\<close> is dropped with the missing ones.  Two answers of one week and one category,
  scored \<open>0\<close> and \<open>1\<close>, are reported with average \<open>1\<close>, while the mean of their
  scores is \<open>1/2\<close>.
\<close>

theorem bucket_average_drops_zero_scores:
  "get_weekly_progress [example_answer\<lparr>a_confidence_score := Some 0\<rparr>, example_answer]
     = [(738998, \<lparr>s_questions_attempted = 2, s_average_score = 1\<rparr>)] \<and>
   get_category_performance example_db
       [example_answer\<lparr>a_confidence_score := Some 0\<rparr>, example_answer]
     = [(''algorithms'', \<lparr>s_questions_attempted = 2, s_average_score = 1\<rparr>)] \<and>
   mean_of_available_scores [example_answer\<lparr>a_confidence_score := Some 0\<rparr>, example_answer]
     = 1 / 2"
proof (intro conjI)
  show "get_weekly_progress [example_answer\<lparr>a_confidence_score := Some 0\<rparr>, example_answer]
     = [(738998, \<lparr>s_questions_attempted = 2, s_average_score = 1\<rparr>)]"
    by (simp add: get_weekly_progress_def record_answer_def finish_bucket_def weekday_def
        example_answer_def example_now_def default_bucket_def Let_def)
  show "get_category_performance example_db
       [example_answer\<lparr>a_confidence_score := Some 0\<rparr>, example_answer]
     = [(''algorithms'', \<lparr>s_questions_attempted = 2, s_average_score = 1\<rparr>)]"
    by (simp add: get_category_performance_def record_answer_def finish_bucket_def
        example_answer_def example_db_def example_question_def default_bucket_def Let_def
        one_row_def)
  show "mean_of_available_scores
          [example_answer\<lparr>a_confidence_score := Some 0\<rparr>, example_answer] = 1 / 2"
    by (simp add: mean_of_available_scores_def available_scores_def List.map_filter_def
        example_answer_def)
qed

section \<open>delete_file\<close>

text \<open>
  C9.  For a file that the requester owns: when the deletion in the object store fails,
  \<open>delete_file\<close> answers 500 with the store's message and leaves the database and the
  object store as they were; when it succeeds, the rows with the file's id are removed
  from \<open>media_files\<close> and the call answers with the success message.
\<close>

theorem delete_file_storage_first:
  assumes "one_row (filter (\<lambda>f. f_id f = file_id \<and> f_user_id f = uid) (media_files db))
             = Some file_info"
  shows "(\<forall>e. delete_object s3 bucket (''uploads/'' @ uid @ ''/'' @ f_filename file_info) = Inl e
            \<longrightarrow> delete_file delete_object bucket db s3 file_id uid
                  = (db, s3, Inl (HTTPException 500 e))) \<and>
         (\<forall>s3'. delete_object s3 bucket (''uploads/'' @ uid @ ''/'' @ f_filename file_info) = Inr s3'
            \<longrightarrow> delete_file delete_object bucket db s3 file_id uid
                  = (db\<lparr>media_files := filter (\<lambda>f. f_id f \<noteq> file_id) (media_files db)\<rparr>, s3',
                     Inr ''File deleted successfully''))"
  using assms by (simp add: delete_file_def)

theorem delete_file_storage_first_witness:
  "one_row (filter (\<lambda>f. f_id f = ''f1'' \<and> f_user_id f = ''u1'') (media_files example_db))
     = Some example_file \<and>
   example_delete_fails [''uploads/u1/5d2c.pdf''] ''bucket''
       (''uploads/'' @ ''u1'' @ ''/'' @ f_filename example_file) = Inl ''AccessDenied'' \<and>
   delete_file example_delete_fails ''bucket'' example_db [''uploads/u1/5d2c.pdf''] ''f1'' ''u1''
     = (example_db, [''uploads/u1/5d2c.pdf''], Inl (HTTPException 500 ''AccessDenied'')) \<and>
   example_delete_ok [''uploads/u1/5d2c.pdf''] ''bucket''
       (''uploads/'' @ ''u1'' @ ''/'' @ f_filename example_file) = Inr [] \<and>
   delete_file example_delete_ok ''bucket'' example_db [''uploads/u1/5d2c.pdf''] ''f1'' ''u1''
     = (example_db\<lparr>media_files := []\<rparr>, [], Inr ''File deleted successfully'')"
proof -
  have owned: "one_row (filter (\<lambda>f. f_id f = ''f1'' \<and> f_user_id f = ''u1'')
                 (media_files example_db)) = Some example_file"
    by (simp add: example_db_def example_file_def one_row_def)
  have fails: "example_delete_fails [''uploads/u1/5d2c.pdf''] ''bucket''
       (''uploads/'' @ ''u1'' @ ''/'' @ f_filename example_file) = Inl ''AccessDenied''"
    by (simp add: example_delete_fails_def)
  have ok: "example_delete_ok [''uploads/u1/5d2c.pdf''] ''bucket''
       (''uploads/'' @ ''u1'' @ ''/'' @ f_filename example_file) = Inr []"
    by (simp add: example_delete_ok_def example_file_def)
  have files: "filter (\<lambda>f. f_id f \<noteq> ''f1'') (media_files example_db) = []"
    by (simp add: example_db_def example_file_def)
  show ?thesis
    using delete_file_storage_first
        [OF owned, of example_delete_fails "[''uploads/u1/5d2c.pdf'']" "''bucket''"]
      delete_file_storage_first
        [OF owned, of example_delete_ok "[''uploads/u1/5d2c.pdf'']" "''bucket''"]
      owned fails ok
    by (simp add: files)
qed

end
